theory Spec2Isabelle
  imports Complex_Main "HOL-Library.Product_Lexorder" "HOL-Library.Multiset"
begin

section \<open>The ZK-NON ledger: two servers over one ledger design\<close>

text \<open>
  The repository holds two implementations of the same HTTP ledger service:
  \<^item> \<^verbatim>\<open>src/src/server.js\<close> with \<^verbatim>\<open>src/src/db.js\<close>: a PostgreSQL-backed server whose
    handlers run inside \<^verbatim>\<open>BEGIN ... COMMIT\<close> with \<^verbatim>\<open>SELECT ... FOR UPDATE\<close>; a withdrawal
    is recorded synchronously. Its definitions carry the prefix \<open>pg_\<close>.
  \<^item> \<^verbatim>\<open>src/unnamed/part_000\<close>: a better-sqlite3-backed server whose withdrawal reserves
    funds, answers \<^verbatim>\<open>PENDING\<close> and pays out in a detached asynchronous job. Its
    definitions carry the prefix \<open>sq_\<close>.

  Modelling decisions, valid for the whole theory:
  \<^item> A handler is a function from the request and the store to the response and the new
    store. A handler that answers with an error status returns the store it was given
    (\<^verbatim>\<open>ROLLBACK\<close>, or no write was issued). One handler call is one serialized operation.
  \<^item> A request field is absent (\<open>None\<close>) or present. Text fields are strings; the
    \<^verbatim>\<open>amount\<close> field is a JSON number, taken as an exact rational. The rounding of IEEE-754
    doubles and the non-finite doubles are not modelled: sums, differences and
    comparisons of amounts are exact.
  \<^item> SHA-256 (\<^verbatim>\<open>sha256Hex\<close>, \<^verbatim>\<open>sha256\<close>) is a parameter of type \<open>string \<Rightarrow> string\<close>; the
    outputs of \<^verbatim>\<open>crypto.randomBytes(n).toString("hex")\<close> and the clock reading are
    arguments of the handler that draws them.
  \<^item> The HTTP answers are named after the error taxonomy of the specification; the
    status code and message of each are quoted where the handler is defined.
\<close>

subsection \<open>JavaScript values\<close>

datatype error =
    ValidationError
  | NotFoundError
  | OwnershipError
  | AuthorizationError
  | InsufficientBalanceError
  | CollisionError
  | NotConfiguredError
  | InternalError

datatype direction = DEPOSIT | WITHDRAW

datatype tx_status = PENDING | CONFIRMED | FAILED

text \<open>\<^verbatim>\<open>!!v\<close> for a text field: absent and the empty string are falsy.\<close>

definition truthy :: "string option \<Rightarrow> bool" where
  "truthy v = (case v of None \<Rightarrow> False | Some s \<Rightarrow> s \<noteq> [])"

text \<open>
  \<^verbatim>\<open>Number(amount)\<close> of an absent field is \<^verbatim>\<open>NaN\<close>, written \<open>None\<close>. \<^verbatim>\<open>!amt\<close> holds for
  \<^verbatim>\<open>NaN\<close> and for zero; every comparison with \<^verbatim>\<open>NaN\<close> is false.
\<close>

definition falsy_number :: "rat option \<Rightarrow> bool" where
  "falsy_number a = (case a of None \<Rightarrow> True | Some x \<Rightarrow> x = 0)"

definition le_zero :: "rat option \<Rightarrow> bool" where
  "le_zero a = (case a of None \<Rightarrow> False | Some x \<Rightarrow> x \<le> 0)"

definition gt_zero :: "rat option \<Rightarrow> bool" where
  "gt_zero a = (case a of None \<Rightarrow> False | Some x \<Rightarrow> 0 < x)"

text \<open>\<^verbatim>\<open>txSignature || null\<close>.\<close>

definition or_null :: "string option \<Rightarrow> string option" where
  "or_null v = (if truthy v then v else None)"

definition toUpperCase_char :: "char \<Rightarrow> char" where
  "toUpperCase_char c =
     (let n = (of_char c :: nat) in if 97 \<le> n \<and> n \<le> 122 then char_of (n - 32) else c)"

definition toUpperCase :: "string \<Rightarrow> string" where
  "toUpperCase s = map toUpperCase_char s"

subsection \<open>Request bodies\<close>

record deposit_body =
  walletPubkey :: "string option"
  zkProofId :: "string option"
  amount :: "rat option"
  txSignature :: "string option"

record withdrawal_body =
  w_zkProofId :: "string option"
  w_note :: "string option"
  w_amount :: "rat option"
  recipient :: "string option"
  w_txSignature :: "string option"

section \<open>The PostgreSQL server (src/src/server.js, src/src/db.js)\<close>

subsection \<open>Schema\<close>

text \<open>
  \<^verbatim>\<open>zk_proofs\<close> has a \<^verbatim>\<open>UNIQUE\<close> \<^verbatim>\<open>zk_proof_id\<close> and is read by that column only, so the table
  is a map from \<^verbatim>\<open>zk_proof_id\<close> to the rest of the row. \<^verbatim>\<open>zk_transfers\<close> is the list of its
  rows in insertion order; it has no status column. The \<^verbatim>\<open>SERIAL\<close> keys are read by no
  handler and are left out. \<^verbatim>\<open>created_at\<close> is a clock reading.
\<close>

record pg_proof =
  proof_wallet_pubkey :: string
  proof_note_hash :: string
  total_amount :: rat
  spent_amount :: rat
  proof_created_at :: nat

record pg_transfer =
  tr_zk_proof_id :: string
  tr_wallet_pubkey :: string
  tr_direction :: direction
  tr_amount :: rat
  tr_recipient :: "string option"
  tr_tx_signature :: "string option"
  tr_created_at :: nat

record pg_db =
  pg_zk_proofs :: "string \<rightharpoonup> pg_proof"
  zk_transfers :: "pg_transfer list"

definition pg_empty :: pg_db where
  "pg_empty = \<lparr>pg_zk_proofs = Map.empty, zk_transfers = []\<rparr>"

text \<open>
  A value stored in a \<^verbatim>\<open>NUMERIC(36,9)\<close> column is rounded to nine decimal places, half
  away from zero; a rounded value of \<open>10\<^sup>2\<^sup>7\<close> or more in magnitude raises
  \<^verbatim>\<open>numeric field overflow\<close> (\<open>None\<close>), which the handlers' \<^verbatim>\<open>catch\<close> turns into
  \<^verbatim>\<open>ROLLBACK\<close> and status 500.
\<close>

definition round9 :: "rat \<Rightarrow> rat" where
  "round9 x = sgn x * of_int \<lfloor>\<bar>x\<bar> * 10 ^ 9 + 1 / 2\<rfloor> / 10 ^ 9"

definition numeric_36_9 :: "rat \<Rightarrow> rat option" where
  "numeric_36_9 x = (let r = round9 x in if \<bar>r\<bar> < 10 ^ 27 then Some r else None)"

text \<open>\<^verbatim>\<open>toNumber\<close>: \<^verbatim>\<open>parseFloat\<close> of the column's decimal text, \<open>0\<close> for \<^verbatim>\<open>NULL\<close>.\<close>

definition toNumber :: "rat option \<Rightarrow> rat" where
  "toNumber val = (case val of None \<Rightarrow> 0 | Some x \<Rightarrow> x)"

record pg_ok =
  ok_zkProofId :: string
  ok_balance :: rat
  ok_total :: rat
  ok_spent :: rat

subsection \<open>POST /api/zkproofs/generate\<close>

definition pg_zkProofId :: "(string \<Rightarrow> string) \<Rightarrow> string \<Rightarrow> string \<Rightarrow> string" where
  "pg_zkProofId sha256Hex wallet noteHash =
     ''ZKP-'' @ toUpperCase (take 16 (sha256Hex (wallet @ '':'' @ noteHash)))"

text \<open>
  \<open>rnd\<close> is the secret note, \<^verbatim>\<open>crypto.randomBytes(32).toString("hex")\<close>; \<open>wallet\<close> is the
  body's \<^verbatim>\<open>walletPubkey\<close>. Status 400 is \<open>ValidationError\<close>.
  The insert is \<^verbatim>\<open>ON CONFLICT (zk_proof_id) DO NOTHING\<close>, and the answer that follows it does
  not depend on whether a row was inserted.
\<close>

definition pg_generate ::
  "(string \<Rightarrow> string) \<Rightarrow> string option \<Rightarrow> string \<Rightarrow> nat \<Rightarrow> pg_db
     \<Rightarrow> (error + string \<times> string) \<times> pg_db" where
  "pg_generate sha256Hex walletPubkey_field rnd now db =
     (if \<not> truthy walletPubkey_field then (Inl ValidationError, db)
      else
        let wallet = the walletPubkey_field;
            noteHash = sha256Hex rnd;
            zkId = pg_zkProofId sha256Hex wallet noteHash;
            db' = (case pg_zk_proofs db zkId of
                     Some existing \<Rightarrow> db
                   | None \<Rightarrow>
                       db\<lparr>pg_zk_proofs := (pg_zk_proofs db)(zkId \<mapsto>
                         \<lparr>proof_wallet_pubkey = wallet, proof_note_hash = noteHash,
                          total_amount = 0, spent_amount = 0, proof_created_at = now\<rparr>)\<rparr>)
        in (Inr (zkId, rnd), db'))"

subsection \<open>POST /api/deposits\<close>

text \<open>
  Status 400 with \<^verbatim>\<open>"... positive amount are required"\<close> is \<open>ValidationError\<close>, 404 is
  \<open>NotFoundError\<close>, 400 with \<^verbatim>\<open>"walletPubkey does not own this zk_proof_id"\<close> is
  \<open>OwnershipError\<close>, 500 is \<open>InternalError\<close>.
\<close>

definition pg_deposits :: "deposit_body \<Rightarrow> nat \<Rightarrow> pg_db \<Rightarrow> (error + pg_ok) \<times> pg_db" where
  "pg_deposits body now db =
     (let amt = amount body in
      if \<not> truthy (walletPubkey body) \<or> \<not> truthy (zkProofId body) \<or> falsy_number amt \<or> le_zero amt
      then (Inl ValidationError, db)
      else
        let wallet = the (walletPubkey body); zkId = the (zkProofId body); a = the amt in
        case pg_zk_proofs db zkId of
          None \<Rightarrow> (Inl NotFoundError, db)
        | Some proof \<Rightarrow>
            if proof_wallet_pubkey proof \<noteq> wallet then (Inl OwnershipError, db)
            else
              (case numeric_36_9 (total_amount proof + a) of
                 None \<Rightarrow> (Inl InternalError, db)
               | Some new_total \<Rightarrow>
                   (case numeric_36_9 a of
                      None \<Rightarrow> (Inl InternalError, db)
                    | Some stored \<Rightarrow>
                        let updated = proof\<lparr>total_amount := new_total\<rparr>;
                            row = \<lparr>tr_zk_proof_id = zkId, tr_wallet_pubkey = wallet,
                                   tr_direction = DEPOSIT, tr_amount = stored,
                                   tr_recipient = None,
                                   tr_tx_signature = or_null (txSignature body),
                                   tr_created_at = now\<rparr>;
                            total = toNumber (Some (total_amount updated));
                            spent = toNumber (Some (spent_amount updated))
                        in (Inr \<lparr>ok_zkProofId = zkId, ok_balance = total - spent,
                                 ok_total = total, ok_spent = spent\<rparr>,
                            db\<lparr>pg_zk_proofs := (pg_zk_proofs db)(zkId \<mapsto> updated),
                               zk_transfers := zk_transfers db @ [row]\<rparr>))))"

subsection \<open>POST /api/withdrawals\<close>

text \<open>
  Status 400 with \<^verbatim>\<open>"invalid note for this zk_proof_id"\<close> is \<open>AuthorizationError\<close>, 400 with
  \<^verbatim>\<open>"insufficient balance"\<close> is \<open>InsufficientBalanceError\<close>.
\<close>

definition pg_withdrawals ::
  "(string \<Rightarrow> string) \<Rightarrow> withdrawal_body \<Rightarrow> nat \<Rightarrow> pg_db \<Rightarrow> (error + pg_ok) \<times> pg_db" where
  "pg_withdrawals sha256Hex body now db =
     (let amt = w_amount body in
      if \<not> truthy (w_zkProofId body) \<or> \<not> truthy (w_note body) \<or> \<not> truthy (recipient body)
         \<or> falsy_number amt \<or> le_zero amt
      then (Inl ValidationError, db)
      else
        let zkId = the (w_zkProofId body); a = the amt;
            noteHash = sha256Hex (the (w_note body)) in
        case pg_zk_proofs db zkId of
          None \<Rightarrow> (Inl NotFoundError, db)
        | Some proof \<Rightarrow>
            if proof_note_hash proof \<noteq> noteHash then (Inl AuthorizationError, db)
            else
              let total = toNumber (Some (total_amount proof));
                  spent = toNumber (Some (spent_amount proof));
                  available = total - spent in
              if available < a then (Inl InsufficientBalanceError, db)
              else
                (case numeric_36_9 (spent_amount proof + a) of
                   None \<Rightarrow> (Inl InternalError, db)
                 | Some new_spent \<Rightarrow>
                     (case numeric_36_9 a of
                        None \<Rightarrow> (Inl InternalError, db)
                      | Some stored \<Rightarrow>
                          let updated = proof\<lparr>spent_amount := new_spent\<rparr>;
                              row = \<lparr>tr_zk_proof_id = zkId,
                                     tr_wallet_pubkey = proof_wallet_pubkey proof,
                                     tr_direction = WITHDRAW, tr_amount = stored,
                                     tr_recipient = recipient body,
                                     tr_tx_signature = or_null (w_txSignature body),
                                     tr_created_at = now\<rparr>;
                              newTotal = toNumber (Some (total_amount updated));
                              newSpent = toNumber (Some (spent_amount updated))
                          in (Inr \<lparr>ok_zkProofId = zkId, ok_balance = newTotal - newSpent,
                                   ok_total = newTotal, ok_spent = newSpent\<rparr>,
                              db\<lparr>pg_zk_proofs := (pg_zk_proofs db)(zkId \<mapsto> updated),
                                 zk_transfers := zk_transfers db @ [row]\<rparr>))))"

subsection \<open>GET /api/history\<close>

text \<open>
  \<^verbatim>\<open>ORDER BY created_at DESC LIMIT 200\<close>. PostgreSQL leaves the order of rows with equal
  \<^verbatim>\<open>created_at\<close> open; the model takes the later inserted row first.
\<close>

definition pg_history :: "string option \<Rightarrow> pg_db \<Rightarrow> (error + pg_transfer list) \<times> pg_db" where
  "pg_history wallet db =
     (if \<not> truthy wallet then (Inl ValidationError, db)
      else
        let rows = filter (\<lambda>r. tr_wallet_pubkey r = the wallet) (zk_transfers db)
        in (Inr (take 200 (rev (sort_key tr_created_at rows))), db))"

section \<open>The SQLite server (src/unnamed/part_000)\<close>

subsection \<open>Schema and in-flight payouts\<close>

text \<open>
  \<^verbatim>\<open>zk_proofs\<close> is keyed by its \<^verbatim>\<open>PRIMARY KEY\<close> \<^verbatim>\<open>id\<close>. \<^verbatim>\<open>transactions\<close> is the list of its
  rows in insertion order; \<^verbatim>\<open>AUTOINCREMENT\<close> gives a new row the largest key so far plus
  one. \<^verbatim>\<open>created_at\<close> holds \<^verbatim>\<open>new Date().toISOString()\<close>, modelled as the clock reading in
  milliseconds; SQLite's \<^verbatim>\<open>datetime(created_at)\<close> drops the milliseconds.

  The detached \<^verbatim>\<open>(async () => { ... })()\<close> of a withdrawal is a job: the values its
  closure captured. The server's state is the database and the jobs that have not
  finished yet.
\<close>

record sq_proof =
  wallet_pubkey :: string
  note_hash :: string
  total :: rat
  spent :: rat
  created_at :: nat

record sq_transaction =
  tx_id :: nat
  tx_wallet_pubkey :: string
  tx_zk_proof_id :: string
  tx_type :: direction
  tx_amount :: rat
  tx_recipient :: "string option"
  tx_signature :: "string option"
  status :: tx_status
  tx_created_at :: nat

record sq_job =
  job_txId :: nat
  job_zkProofId :: string
  job_amt :: rat
  job_recipient :: string

record sq_server =
  zk_proofs :: "string \<rightharpoonup> sq_proof"
  transactions :: "sq_transaction list"
  jobs :: "sq_job list"

definition sq_empty :: sq_server where
  "sq_empty = \<lparr>zk_proofs = Map.empty, transactions = [], jobs = []\<rparr>"

definition lastInsertRowid :: "sq_transaction list \<Rightarrow> nat" where
  "lastInsertRowid txs = Suc (fold max (map tx_id txs) 0)"

definition datetime :: "nat \<Rightarrow> nat" where
  "datetime ms = ms div 1000"

subsection \<open>Helpers\<close>

text \<open>
  \<open>partA\<close> and \<open>partB\<close> are \<^verbatim>\<open>randomBytes(4).toString("hex")\<close> and
  \<^verbatim>\<open>randomBytes(3).toString("hex")\<close>.
\<close>

definition generateZkProofId :: "string \<Rightarrow> string \<Rightarrow> string" where
  "generateZkProofId partA partB = ''ZKP-'' @ toUpperCase partA @ toUpperCase partB"

subsection \<open>POST /api/zkproofs/generate\<close>

text \<open>
  Status 500 with \<^verbatim>\<open>"ID collision, retry request"\<close> is \<open>CollisionError\<close>. \<open>rnd\<close> is
  \<^verbatim>\<open>generateSecretNote()\<close>.
\<close>

definition sq_generate ::
  "(string \<Rightarrow> string) \<Rightarrow> string option \<Rightarrow> string \<Rightarrow> string \<Rightarrow> string \<Rightarrow> nat \<Rightarrow> sq_server
     \<Rightarrow> (error + string \<times> string) \<times> sq_server" where
  "sq_generate sha256 walletPubkey_field partA partB rnd now s =
     (if \<not> truthy walletPubkey_field then (Inl ValidationError, s)
      else
        let zkId = generateZkProofId partA partB;
            noteHash = sha256 rnd in
        case zk_proofs s zkId of
          Some existing \<Rightarrow> (Inl CollisionError, s)
        | None \<Rightarrow>
            (Inr (zkId, rnd),
             s\<lparr>zk_proofs := (zk_proofs s)(zkId \<mapsto>
                 \<lparr>wallet_pubkey = the walletPubkey_field, note_hash = noteHash,
                  total = 0, spent = 0, created_at = now\<rparr>)\<rparr>))"

subsection \<open>POST /api/deposits\<close>

text \<open>
  Status 400 is \<open>ValidationError\<close>; 404 with \<^verbatim>\<open>"zk_proof not found for this wallet"\<close> is
  \<open>NotFoundError\<close>. The answer to a recorded deposit is \<^verbatim>\<open>{ ok: true }\<close>.
\<close>

definition sq_deposits :: "deposit_body \<Rightarrow> nat \<Rightarrow> sq_server \<Rightarrow> (error + unit) \<times> sq_server" where
  "sq_deposits body now s =
     (if \<not> truthy (walletPubkey body) \<or> \<not> truthy (zkProofId body)
         \<or> falsy_number (amount body) \<or> \<not> truthy (txSignature body)
      then (Inl ValidationError, s)
      else
        let wallet = the (walletPubkey body); zkId = the (zkProofId body) in
        case (case zk_proofs s zkId of
                None \<Rightarrow> None
              | Some p \<Rightarrow> if wallet_pubkey p = wallet then Some p else None) of
          None \<Rightarrow> (Inl NotFoundError, s)
        | Some proof \<Rightarrow>
            let amt = amount body in
            if \<not> gt_zero amt then (Inl ValidationError, s)
            else
              let row = \<lparr>tx_id = lastInsertRowid (transactions s), tx_wallet_pubkey = wallet,
                         tx_zk_proof_id = zkId, tx_type = DEPOSIT, tx_amount = the amt,
                         tx_recipient = Some ''shielded_pool'',
                         tx_signature = txSignature body, status = CONFIRMED,
                         tx_created_at = now\<rparr>
              in (Inr (),
                  s\<lparr>zk_proofs := (zk_proofs s)(zkId \<mapsto> proof\<lparr>total := total proof + the amt\<rparr>),
                    transactions := transactions s @ [row]\<rparr>))"

subsection \<open>POST /api/withdrawals\<close>

text \<open>
  \<open>poolKeypair\<close> tells whether the pool key was loaded at start. Status 500 with
  \<^verbatim>\<open>"Withdrawals are not configured on this server."\<close> is \<open>NotConfiguredError\<close>, 403 is
  \<open>AuthorizationError\<close>, 400 with \<^verbatim>\<open>"Insufficient shielded balance"\<close> is
  \<open>InsufficientBalanceError\<close>. The answer \<^verbatim>\<open>{ status: "PENDING", id: txId }\<close> is \<open>Inr txId\<close>.
\<close>

definition sq_withdrawals ::
  "(string \<Rightarrow> string) \<Rightarrow> bool \<Rightarrow> withdrawal_body \<Rightarrow> nat \<Rightarrow> sq_server
     \<Rightarrow> (error + nat) \<times> sq_server" where
  "sq_withdrawals sha256 poolKeypair body now s =
     (if \<not> truthy (w_zkProofId body) \<or> \<not> truthy (w_note body)
         \<or> falsy_number (w_amount body) \<or> \<not> truthy (recipient body)
      then (Inl ValidationError, s)
      else if \<not> poolKeypair then (Inl NotConfiguredError, s)
      else
        let zkId = the (w_zkProofId body) in
        case zk_proofs s zkId of
          None \<Rightarrow> (Inl NotFoundError, s)
        | Some proof \<Rightarrow>
            let expectedHash = note_hash proof;
                givenHash = sha256 (the (w_note body)) in
            if expectedHash \<noteq> givenHash then (Inl AuthorizationError, s)
            else
              let amt = w_amount body in
              if \<not> gt_zero amt then (Inl ValidationError, s)
              else
                let currentBalance = total proof - spent proof in
                if the amt > currentBalance + 1 / 10 ^ 9 then (Inl InsufficientBalanceError, s)
                else
                  let txId = lastInsertRowid (transactions s);
                      row = \<lparr>tx_id = txId, tx_wallet_pubkey = wallet_pubkey proof,
                             tx_zk_proof_id = zkId, tx_type = WITHDRAW, tx_amount = the amt,
                             tx_recipient = recipient body, tx_signature = None,
                             status = PENDING, tx_created_at = now\<rparr>;
                      job = \<lparr>job_txId = txId, job_zkProofId = zkId, job_amt = the amt,
                             job_recipient = the (recipient body)\<rparr>
                  in (Inr txId,
                      s\<lparr>zk_proofs := (zk_proofs s)(zkId \<mapsto> proof\<lparr>spent := spent proof + the amt\<rparr>),
                        transactions := transactions s @ [row],
                        jobs := jobs s @ [job]\<rparr>))"

subsection \<open>The asynchronous payout\<close>

text \<open>
  \<^verbatim>\<open>sendFromPool\<close> talks to the settlement network; its result is an input: the
  signature it returned, or that it threw.
\<close>

datatype outcome = Sent string | SendFailed

text \<open>
  The job's \<^verbatim>\<open>try\<close> branch is one \<^verbatim>\<open>UPDATE transactions\<close>; its \<^verbatim>\<open>catch\<close> branch is the
  transaction \<^verbatim>\<open>tx2\<close>: \<^verbatim>\<open>UPDATE transactions\<close> and \<^verbatim>\<open>UPDATE zk_proofs SET spent = spent - ?\<close>,
  committed together.
\<close>

definition sq_settle :: "sq_job \<Rightarrow> outcome \<Rightarrow> sq_server \<Rightarrow> sq_server" where
  "sq_settle job out s =
     (case out of
        Sent signature \<Rightarrow>
          s\<lparr>transactions :=
              map (\<lambda>t. if tx_id t = job_txId job
                       then t\<lparr>status := CONFIRMED, tx_signature := Some signature\<rparr> else t)
                  (transactions s)\<rparr>
      | SendFailed \<Rightarrow>
          s\<lparr>transactions :=
              map (\<lambda>t. if tx_id t = job_txId job then t\<lparr>status := FAILED\<rparr> else t)
                  (transactions s),
            zk_proofs :=
              (case zk_proofs s (job_zkProofId job) of
                 None \<Rightarrow> zk_proofs s
               | Some p \<Rightarrow> (zk_proofs s)(job_zkProofId job \<mapsto> p\<lparr>spent := spent p - job_amt job\<rparr>))\<rparr>)"

subsection \<open>GET /api/history\<close>

text \<open>\<^verbatim>\<open>ORDER BY datetime(created_at) DESC, id DESC\<close>, with no \<^verbatim>\<open>LIMIT\<close>.\<close>

definition sq_history :: "string option \<Rightarrow> sq_server \<Rightarrow> (error + sq_transaction list) \<times> sq_server" where
  "sq_history wallet s =
     (if \<not> truthy wallet then (Inl ValidationError, s)
      else
        let rows = filter (\<lambda>t. tx_wallet_pubkey t = the wallet) (transactions s)
        in (Inr (rev (sort_key (\<lambda>t. (datetime (tx_created_at t), tx_id t)) rows)), s))"

section \<open>Serialized runs\<close>

text \<open>
  A run is a list of operations applied one after the other, each to the store the one
  before it committed. An asynchronous payout finishes as an operation of its own,
  \<open>SqSettle\<close>, naming the transaction it belongs to: it runs the job of that
  transaction if the job is still in flight, and the job is then gone.
\<close>

datatype pg_event =
    PgGenerate "string option" string nat
  | PgDeposit deposit_body nat
  | PgWithdraw withdrawal_body nat

fun pg_step :: "(string \<Rightarrow> string) \<Rightarrow> pg_db \<Rightarrow> pg_event \<Rightarrow> pg_db" where
  "pg_step H db (PgGenerate w rnd now) = snd (pg_generate H w rnd now db)"
| "pg_step H db (PgDeposit body now) = snd (pg_deposits body now db)"
| "pg_step H db (PgWithdraw body now) = snd (pg_withdrawals H body now db)"

definition pg_run :: "(string \<Rightarrow> string) \<Rightarrow> pg_event list \<Rightarrow> pg_db \<Rightarrow> pg_db" where
  "pg_run H evs db = foldl (pg_step H) db evs"

datatype sq_event =
    SqGenerate "string option" string string string nat
  | SqDeposit deposit_body nat
  | SqWithdraw withdrawal_body nat
  | SqSettle nat outcome

fun sq_step :: "(string \<Rightarrow> string) \<Rightarrow> bool \<Rightarrow> sq_server \<Rightarrow> sq_event \<Rightarrow> sq_server" where
  "sq_step H pool s (SqGenerate w partA partB rnd now) = snd (sq_generate H w partA partB rnd now s)"
| "sq_step H pool s (SqDeposit body now) = snd (sq_deposits body now s)"
| "sq_step H pool s (SqWithdraw body now) = snd (sq_withdrawals H pool body now s)"
| "sq_step H pool s (SqSettle txId out) =
     (case find (\<lambda>j. job_txId j = txId) (jobs s) of
        None \<Rightarrow> s
      | Some job \<Rightarrow> sq_settle job out (s\<lparr>jobs := filter (\<lambda>j. job_txId j \<noteq> txId) (jobs s)\<rparr>))"

definition sq_run :: "(string \<Rightarrow> string) \<Rightarrow> bool \<Rightarrow> sq_event list \<Rightarrow> sq_server \<Rightarrow> sq_server" where
  "sq_run H pool evs s = foldl (sq_step H pool) s evs"

section \<open>Predicates and examples used by the theorems\<close>

subsection \<open>Invariants\<close>




text \<open>
  What holds of the SQLite server's state after every run: transaction keys and job keys
  are unique, every job in flight belongs to a \<^verbatim>\<open>PENDING\<close> withdrawal row that carries the
  job's amount and identifier, that identifier has an entry, and every transaction row
  carries the wallet of the entry it names.
\<close>

definition sq_wf :: "sq_server \<Rightarrow> bool" where
  "sq_wf s =
     (distinct (map tx_id (transactions s)) \<and>
      distinct (map job_txId (jobs s)) \<and>
      (\<forall>j \<in> set (jobs s). \<exists>t \<in> set (transactions s).
          tx_id t = job_txId j \<and> status t = PENDING \<and> tx_type t = WITHDRAW \<and>
          tx_amount t = job_amt j \<and> tx_zk_proof_id t = job_zkProofId j) \<and>
      (\<forall>j \<in> set (jobs s). zk_proofs s (job_zkProofId j) \<noteq> None) \<and>
      (\<forall>t \<in> set (transactions s). \<exists>p. zk_proofs s (tx_zk_proof_id t) = Some p \<and>
          wallet_pubkey p = tx_wallet_pubkey t))"

text \<open>
  What holds of the PostgreSQL store after every run: every transfer row carries the wallet
  of the entry it names.
\<close>

definition pg_wf :: "pg_db \<Rightarrow> bool" where
  "pg_wf db = (\<forall>r \<in> set (zk_transfers db).
      \<exists>p. pg_zk_proofs db (tr_zk_proof_id r) = Some p \<and> proof_wallet_pubkey p = tr_wallet_pubkey r)"

subsection \<open>Comparing the two servers\<close>









subsection \<open>Example stores and runs\<close>

text \<open>
  Example runs. On the PostgreSQL server: an issuance for \<^verbatim>\<open>wallet\<close>, a deposit of 5, a
  withdrawal of 3. On the SQLite server: an issuance, a deposit of 5, a withdrawal of 3
  whose payout fails, and a withdrawal of 5.0000000005; \<open>ex_sq_fresh\<close> and
  \<open>ex_sq_funded\<close> are the stores after the first and after the first two of these.
  \<open>ex_hash\<close> is an injective function that stands for SHA-256 where an example needs two
  digests to differ.
\<close>

definition ex_hash :: "string \<Rightarrow> string" where
  "ex_hash x = CHR ''#'' # x"

definition ex_pg_id :: "(string \<Rightarrow> string) \<Rightarrow> string" where
  "ex_pg_id H = pg_zkProofId H ''wallet'' (H ''n0'')"

definition ex_pg_deposit :: "(string \<Rightarrow> string) \<Rightarrow> string \<Rightarrow> rat \<Rightarrow> deposit_body" where
  "ex_pg_deposit H w a = \<lparr>walletPubkey = Some w, zkProofId = Some (ex_pg_id H),
                          amount = Some a, txSignature = None\<rparr>"

definition ex_pg_withdraw :: "(string \<Rightarrow> string) \<Rightarrow> string \<Rightarrow> rat \<Rightarrow> withdrawal_body" where
  "ex_pg_withdraw H n a = \<lparr>w_zkProofId = Some (ex_pg_id H), w_note = Some n, w_amount = Some a,
                           recipient = Some ''dest'', w_txSignature = None\<rparr>"

definition ex_pg_run :: "(string \<Rightarrow> string) \<Rightarrow> pg_event list" where
  "ex_pg_run H =
     [PgGenerate (Some ''wallet'') ''n0'' 1,
      PgDeposit (ex_pg_deposit H ''wallet'' 5) 2,
      PgWithdraw (ex_pg_withdraw H ''n0'' 3) 3]"

definition ex_pg_store :: "(string \<Rightarrow> string) \<Rightarrow> pg_db" where
  "ex_pg_store H = pg_run H (ex_pg_run H) pg_empty"

definition ex_sq_id :: string where
  "ex_sq_id = ''ZKP-0A1B2C3D4E5F60''"

definition ex_sq_issue :: sq_event where
  "ex_sq_issue = SqGenerate (Some ''wallet'') ''0a1b2c3d'' ''4e5f60'' ''n0'' 1000"

definition ex_sq_withdraw :: "string \<Rightarrow> rat \<Rightarrow> withdrawal_body" where
  "ex_sq_withdraw n a = \<lparr>w_zkProofId = Some ex_sq_id, w_note = Some n, w_amount = Some a,
                          recipient = Some ''dest'', w_txSignature = None\<rparr>"

definition ex_sq_deposit :: "string \<Rightarrow> rat \<Rightarrow> string option \<Rightarrow> deposit_body" where
  "ex_sq_deposit w a g = \<lparr>walletPubkey = Some w, zkProofId = Some ex_sq_id,
                           amount = Some a, txSignature = g\<rparr>"

definition ex_sq_run :: "sq_event list" where
  "ex_sq_run =
     [ex_sq_issue,
      SqDeposit (ex_sq_deposit ''wallet'' 5 (Some ''sig'')) 2000,
      SqWithdraw (ex_sq_withdraw ''n0'' 3) 3000,
      SqSettle 2 SendFailed,
      SqWithdraw (ex_sq_withdraw ''n0'' (10000000001 / 2000000000)) 4000]"

definition ex_sq_store :: "(string \<Rightarrow> string) \<Rightarrow> sq_server" where
  "ex_sq_store H = sq_run H True ex_sq_run sq_empty"

definition ex_sq_fresh :: "(string \<Rightarrow> string) \<Rightarrow> sq_server" where
  "ex_sq_fresh H = sq_run H True [ex_sq_issue] sq_empty"




section \<open>Basic facts\<close>

lemma truthy_iff: "truthy v \<longleftrightarrow> (\<exists>s. v = Some s \<and> s \<noteq> [])"
  by (cases v) (auto simp: truthy_def)


lemma floor_rat_numeral: "\<lfloor>(numeral a :: rat) / numeral b\<rfloor> = numeral a div numeral b"
  using floor_divide_of_int_eq [of "numeral a" "numeral b", where ?'a = rat] by simp

lemmas js_eval = truthy_def falsy_number_def le_zero_def gt_zero_def or_null_def toNumber_def
  numeric_36_9_def round9_def floor_rat_numeral Let_def toUpperCase_def toUpperCase_char_def

lemma find_Some_set: "find P xs = Some x \<Longrightarrow> x \<in> set xs \<and> P x"
  by (induction xs) (auto split: if_splits)

subsection \<open>Rounding to nine decimal places\<close>









section \<open>The ledger invariant\<close>

subsection \<open>PostgreSQL server\<close>







subsection \<open>SQLite server\<close>








subsection \<open>Evaluating the example runs\<close>

lemma ex_pg_id_nonempty: "ex_pg_id H \<noteq> []"
  by (simp add: ex_pg_id_def pg_zkProofId_def)

lemma ex_pg_store_eq:
  "ex_pg_store H =
     \<lparr>pg_zk_proofs = [ex_pg_id H \<mapsto>
         \<lparr>proof_wallet_pubkey = ''wallet'', proof_note_hash = H ''n0'',
          total_amount = 5, spent_amount = 3, proof_created_at = 1\<rparr>],
      zk_transfers =
        [\<lparr>tr_zk_proof_id = ex_pg_id H, tr_wallet_pubkey = ''wallet'', tr_direction = DEPOSIT,
          tr_amount = 5, tr_recipient = None, tr_tx_signature = None, tr_created_at = 2\<rparr>,
         \<lparr>tr_zk_proof_id = ex_pg_id H, tr_wallet_pubkey = ''wallet'', tr_direction = WITHDRAW,
          tr_amount = 3, tr_recipient = Some ''dest'', tr_tx_signature = None,
          tr_created_at = 3\<rparr>]\<rparr>"
  by (simp add: ex_pg_store_def ex_pg_run_def ex_pg_deposit_def ex_pg_withdraw_def pg_run_def
        pg_generate_def pg_deposits_def pg_withdrawals_def
        pg_empty_def js_eval ex_pg_id_nonempty ex_pg_id_def [symmetric])

lemma ex_pg_run_entry:
  "pg_zk_proofs (ex_pg_store H) (ex_pg_id H) =
     Some \<lparr>proof_wallet_pubkey = ''wallet'', proof_note_hash = H ''n0'',
           total_amount = 5, spent_amount = 3, proof_created_at = 1\<rparr>"
  by (simp add: ex_pg_store_eq)

lemma ex_sq_issue_id: "generateZkProofId ''0a1b2c3d'' ''4e5f60'' = ex_sq_id"
  by code_simp

lemma ex_sq_id_nonempty: "ex_sq_id \<noteq> []"
  by (simp add: ex_sq_id_def)

lemma ex_sq_fresh_eq:
  "ex_sq_fresh H =
     \<lparr>zk_proofs = [ex_sq_id \<mapsto> \<lparr>wallet_pubkey = ''wallet'', note_hash = H ''n0'',
                                   total = 0, spent = 0, created_at = 1000\<rparr>],
      transactions = [], jobs = []\<rparr>"
  by (simp add: ex_sq_fresh_def ex_sq_issue_def sq_run_def sq_generate_def sq_empty_def
        ex_sq_issue_id js_eval)


lemma ex_sq_store_eq:
  "ex_sq_store H =
     \<lparr>zk_proofs = [ex_sq_id \<mapsto> \<lparr>wallet_pubkey = ''wallet'', note_hash = H ''n0'',
                                   total = 5, spent = 10000000001 / 2000000000,
                                   created_at = 1000\<rparr>],
      transactions =
        [\<lparr>tx_id = 1, tx_wallet_pubkey = ''wallet'', tx_zk_proof_id = ex_sq_id,
          tx_type = DEPOSIT, tx_amount = 5, tx_recipient = Some ''shielded_pool'',
          tx_signature = Some ''sig'', status = CONFIRMED, tx_created_at = 2000\<rparr>,
         \<lparr>tx_id = 2, tx_wallet_pubkey = ''wallet'', tx_zk_proof_id = ex_sq_id,
          tx_type = WITHDRAW, tx_amount = 3, tx_recipient = Some ''dest'',
          tx_signature = None, status = FAILED, tx_created_at = 3000\<rparr>,
         \<lparr>tx_id = 3, tx_wallet_pubkey = ''wallet'', tx_zk_proof_id = ex_sq_id,
          tx_type = WITHDRAW, tx_amount = 10000000001 / 2000000000,
          tx_recipient = Some ''dest'', tx_signature = None, status = PENDING,
          tx_created_at = 4000\<rparr>],
      jobs = [\<lparr>job_txId = 3, job_zkProofId = ex_sq_id,
               job_amt = 10000000001 / 2000000000, job_recipient = ''dest''\<rparr>]\<rparr>"
  by (simp add: ex_sq_store_def ex_sq_run_def ex_sq_issue_def ex_sq_deposit_def
        ex_sq_withdraw_def sq_run_def
        sq_generate_def sq_deposits_def sq_withdrawals_def sq_settle_def sq_empty_def
        lastInsertRowid_def ex_sq_issue_id ex_sq_id_nonempty js_eval)





section \<open>Withdrawal requests that are refused\<close>






section \<open>Deposits\<close>





text \<open>
  C9 (as amended). The answers of the deposit handlers to a request that is not recorded.
  \<^item> PostgreSQL server: \<open>ValidationError\<close> exactly when wallet or identifier is missing or
    the amount is not a positive number; otherwise \<open>NotFoundError\<close> when no entry has the
    identifier and \<open>OwnershipError\<close> when the entry belongs to another wallet; a request
    without settlement reference is recorded.
  \<^item> SQLite server: \<open>ValidationError\<close> exactly when wallet, identifier or settlement
    reference is missing or the amount is missing or zero, or when the entry exists,
    belongs to the wallet and the amount is not positive; \<open>NotFoundError\<close> when no entry
    has the identifier and also when the entry belongs to another wallet; never
    \<open>OwnershipError\<close>.
\<close>

theorem deposit_errors:
  "(fst (pg_deposits body now db) = Inl ValidationError \<longleftrightarrow>
      \<not> truthy (walletPubkey body) \<or> \<not> truthy (zkProofId body) \<or> \<not> gt_zero (amount body)) \<and>
   (truthy (walletPubkey body) \<and> zkProofId body = Some z \<and> z \<noteq> [] \<and> gt_zero (amount body) \<and>
    pg_zk_proofs db z = None
    \<longrightarrow> pg_deposits body now db = (Inl NotFoundError, db)) \<and>
   (truthy (walletPubkey body) \<and> zkProofId body = Some z \<and> z \<noteq> [] \<and> gt_zero (amount body) \<and>
    pg_zk_proofs db z = Some p \<and> Some (proof_wallet_pubkey p) \<noteq> walletPubkey body
    \<longrightarrow> pg_deposits body now db = (Inl OwnershipError, db)) \<and>
   (walletPubkey body = Some (proof_wallet_pubkey p) \<and> proof_wallet_pubkey p \<noteq> [] \<and>
    zkProofId body = Some z \<and> z \<noteq> [] \<and> amount body = Some a \<and> 0 < a \<and>
    pg_zk_proofs db z = Some p \<and> numeric_36_9 (total_amount p + a) \<noteq> None \<and>
    numeric_36_9 a \<noteq> None \<and> txSignature body = None
    \<longrightarrow> isl (fst (pg_deposits body now db)) = False) \<and>
   (fst (sq_deposits body now s) = Inl ValidationError \<longleftrightarrow>
      \<not> truthy (walletPubkey body) \<or> \<not> truthy (zkProofId body) \<or>
      falsy_number (amount body) \<or> \<not> truthy (txSignature body) \<or>
      (\<not> gt_zero (amount body) \<and>
       (\<exists>q. zk_proofs s (the (zkProofId body)) = Some q \<and>
            Some (wallet_pubkey q) = walletPubkey body))) \<and>
   (truthy (walletPubkey body) \<and> zkProofId body = Some z \<and> z \<noteq> [] \<and>
    \<not> falsy_number (amount body) \<and> truthy (txSignature body) \<and>
    (zk_proofs s z = None \<or>
     (\<exists>q. zk_proofs s z = Some q \<and> Some (wallet_pubkey q) \<noteq> walletPubkey body))
    \<longrightarrow> sq_deposits body now s = (Inl NotFoundError, s)) \<and>
   fst (sq_deposits body now s) \<noteq> Inl OwnershipError"
  apply (intro conjI)
  subgoal by (auto simp: pg_deposits_def js_eval split: option.splits)
  subgoal by (auto simp: pg_deposits_def js_eval split: option.splits)
  subgoal by (auto simp: pg_deposits_def js_eval split: option.splits)
  subgoal by (auto simp: pg_deposits_def js_eval split: option.splits)
  subgoal by (auto simp: sq_deposits_def js_eval split: option.splits)
  subgoal by (auto simp: sq_deposits_def js_eval split: option.splits)
  subgoal by (auto simp: sq_deposits_def js_eval split: option.splits)
  done

theorem deposit_errors_witness:
  "\<forall>H. fst (pg_deposits (ex_pg_deposit H ''wallet'' (- 1)) 9 (ex_pg_store H)) = Inl ValidationError \<and>
        pg_deposits ((ex_pg_deposit H ''wallet'' 1)\<lparr>zkProofId := Some ''x''\<rparr>) 9 (ex_pg_store H) =
          (Inl NotFoundError, ex_pg_store H) \<and>
        pg_deposits (ex_pg_deposit H ''other'' 1) 9 (ex_pg_store H) =
          (Inl OwnershipError, ex_pg_store H) \<and>
        txSignature (ex_pg_deposit H ''wallet'' 1) = None \<and>
        isl (fst (pg_deposits (ex_pg_deposit H ''wallet'' 1) 9 (ex_pg_store H))) = False \<and>
        fst (sq_deposits (ex_sq_deposit ''wallet'' (- 1) (Some ''sig'')) 2000 (ex_sq_fresh H)) =
          Inl ValidationError \<and>
        sq_deposits (ex_sq_deposit ''other'' 1 (Some ''sig'')) 2000 (ex_sq_fresh H) =
          (Inl NotFoundError, ex_sq_fresh H)"
proof
  fix H :: "string \<Rightarrow> string"
  let ?p = "\<lparr>proof_wallet_pubkey = ''wallet'', proof_note_hash = H ''n0'',
             total_amount = 5, spent_amount = 3, proof_created_at = 1\<rparr>"
  have none: "pg_zk_proofs (ex_pg_store H) ''x'' = None"
    by (simp add: ex_pg_store_eq ex_pg_id_def pg_zkProofId_def)
  have fresh: "zk_proofs (ex_sq_fresh H) ex_sq_id =
      Some \<lparr>wallet_pubkey = ''wallet'', note_hash = H ''n0'', total = 0, spent = 0,
            created_at = 1000\<rparr>"
    by (simp add: ex_sq_fresh_eq)
  have n: "numeric_36_9 6 = Some 6" "numeric_36_9 1 = Some 1"
    by (simp_all add: js_eval)
  have a1: "fst (pg_deposits (ex_pg_deposit H ''wallet'' (- 1)) 9 (ex_pg_store H)) =
      Inl ValidationError"
    using deposit_errors [where body = "ex_pg_deposit H ''wallet'' (- 1)" and now = 9
        and db = "ex_pg_store H", THEN conjunct1]
    by (simp add: ex_pg_deposit_def gt_zero_def)
  have a2: "pg_deposits ((ex_pg_deposit H ''wallet'' 1)\<lparr>zkProofId := Some ''x''\<rparr>) 9
      (ex_pg_store H) = (Inl NotFoundError, ex_pg_store H)"
    using deposit_errors [where body = "(ex_pg_deposit H ''wallet'' 1)\<lparr>zkProofId := Some ''x''\<rparr>"
        and now = 9 and db = "ex_pg_store H" and z = "''x''", THEN conjunct2, THEN conjunct1]
    by (simp add: ex_pg_deposit_def none truthy_def gt_zero_def)
  have a3: "pg_deposits (ex_pg_deposit H ''other'' 1) 9 (ex_pg_store H) =
      (Inl OwnershipError, ex_pg_store H)"
    using deposit_errors [where body = "ex_pg_deposit H ''other'' 1" and now = 9
        and db = "ex_pg_store H" and z = "ex_pg_id H" and p = ?p,
        THEN conjunct2, THEN conjunct2, THEN conjunct1]
    by (simp add: ex_pg_deposit_def ex_pg_run_entry ex_pg_id_nonempty truthy_def gt_zero_def)
  have a4: "isl (fst (pg_deposits (ex_pg_deposit H ''wallet'' 1) 9 (ex_pg_store H))) = False"
    using deposit_errors [where body = "ex_pg_deposit H ''wallet'' 1" and now = 9
        and db = "ex_pg_store H" and z = "ex_pg_id H" and p = ?p and a = 1,
        THEN conjunct2, THEN conjunct2, THEN conjunct2, THEN conjunct1]
    by (simp add: ex_pg_deposit_def ex_pg_run_entry ex_pg_id_nonempty n)
  have a5: "fst (sq_deposits (ex_sq_deposit ''wallet'' (- 1) (Some ''sig'')) 2000 (ex_sq_fresh H)) =
      Inl ValidationError"
    using deposit_errors [where body = "ex_sq_deposit ''wallet'' (- 1) (Some ''sig'')"
        and now = 2000 and s = "ex_sq_fresh H",
        THEN conjunct2, THEN conjunct2, THEN conjunct2, THEN conjunct2, THEN conjunct1]
    by (simp add: ex_sq_deposit_def fresh gt_zero_def)
  have a6: "sq_deposits (ex_sq_deposit ''other'' 1 (Some ''sig'')) 2000 (ex_sq_fresh H) =
      (Inl NotFoundError, ex_sq_fresh H)"
    using deposit_errors [where body = "ex_sq_deposit ''other'' 1 (Some ''sig'')"
        and now = 2000 and s = "ex_sq_fresh H" and z = ex_sq_id,
        THEN conjunct2, THEN conjunct2, THEN conjunct2, THEN conjunct2, THEN conjunct2,
        THEN conjunct1]
    by (simp add: ex_sq_deposit_def fresh ex_sq_id_nonempty truthy_def falsy_number_def)
  show "fst (pg_deposits (ex_pg_deposit H ''wallet'' (- 1)) 9 (ex_pg_store H)) = Inl ValidationError \<and>
        pg_deposits ((ex_pg_deposit H ''wallet'' 1)\<lparr>zkProofId := Some ''x''\<rparr>) 9 (ex_pg_store H) =
          (Inl NotFoundError, ex_pg_store H) \<and>
        pg_deposits (ex_pg_deposit H ''other'' 1) 9 (ex_pg_store H) =
          (Inl OwnershipError, ex_pg_store H) \<and>
        txSignature (ex_pg_deposit H ''wallet'' 1) = None \<and>
        isl (fst (pg_deposits (ex_pg_deposit H ''wallet'' 1) 9 (ex_pg_store H))) = False \<and>
        fst (sq_deposits (ex_sq_deposit ''wallet'' (- 1) (Some ''sig'')) 2000 (ex_sq_fresh H)) =
          Inl ValidationError \<and>
        sq_deposits (ex_sq_deposit ''other'' 1 (Some ''sig'')) 2000 (ex_sq_fresh H) =
          (Inl NotFoundError, ex_sq_fresh H)"
    using a1 a2 a3 a4 a5 a6 by (simp add: ex_pg_deposit_def)
qed

text \<open>
  C9 as stated fails on the SQLite server: a deposit of 5 by the owner on an existing
  entry, with no settlement reference, is answered with status 400.
\<close>

theorem deposit_without_reference_refused:
  "zk_proofs (ex_sq_fresh ex_hash) ex_sq_id =
     Some \<lparr>wallet_pubkey = ''wallet'', note_hash = ex_hash ''n0'',
           total = 0, spent = 0, created_at = 1000\<rparr> \<and>
   sq_deposits (ex_sq_deposit ''wallet'' 5 None) 2000 (ex_sq_fresh ex_hash) =
     (Inl ValidationError, ex_sq_fresh ex_hash)"
  by (simp add: ex_sq_fresh_eq ex_sq_deposit_def sq_deposits_def ex_sq_id_nonempty js_eval)

section \<open>Issuance\<close>

text \<open>
  C6, evaluated on both servers. When the generated identifier is already in the store,
  the SQLite server answers \<^verbatim>\<open>"ID collision, retry request"\<close> and leaves the store as it
  was. The PostgreSQL server leaves the store as it was too
  (\<^verbatim>\<open>ON CONFLICT (zk_proof_id) DO NOTHING\<close>), but it answers with status 200, the colliding
  identifier and the new note.
\<close>

theorem collision_outcome:
  "(truthy w \<and> zk_proofs s (generateZkProofId partA partB) = Some e
    \<longrightarrow> sq_generate H w partA partB rnd now s = (Inl CollisionError, s)) \<and>
   (truthy w \<and> pg_zk_proofs db (pg_zkProofId H (the w) (H rnd)) = Some e'
    \<longrightarrow> pg_generate H w rnd now db = (Inr (pg_zkProofId H (the w) (H rnd), rnd), db))"
  by (auto simp: sq_generate_def pg_generate_def Let_def)


theorem collision_outcome_witness:
  "\<forall>H. (\<exists>e. zk_proofs (ex_sq_fresh H) (generateZkProofId ''0a1b2c3d'' ''4e5f60'') = Some e) \<and>
        sq_generate H (Some ''wallet2'') ''0a1b2c3d'' ''4e5f60'' ''n1'' 5000 (ex_sq_fresh H) =
          (Inl CollisionError, ex_sq_fresh H) \<and>
        (\<exists>e. pg_zk_proofs (ex_pg_store H) (pg_zkProofId H ''wallet'' (H ''n0'')) = Some e) \<and>
        pg_generate H (Some ''wallet'') ''n0'' 7 (ex_pg_store H) =
          (Inr (pg_zkProofId H ''wallet'' (H ''n0''), ''n0''), ex_pg_store H)"
proof
  fix H :: "string \<Rightarrow> string"
  have fresh: "zk_proofs (ex_sq_fresh H) ex_sq_id =
      Some \<lparr>wallet_pubkey = ''wallet'', note_hash = H ''n0'', total = 0, spent = 0,
            created_at = 1000\<rparr>"
    by (simp add: ex_sq_fresh_eq)
  show "(\<exists>e. zk_proofs (ex_sq_fresh H) (generateZkProofId ''0a1b2c3d'' ''4e5f60'') = Some e) \<and>
        sq_generate H (Some ''wallet2'') ''0a1b2c3d'' ''4e5f60'' ''n1'' 5000 (ex_sq_fresh H) =
          (Inl CollisionError, ex_sq_fresh H) \<and>
        (\<exists>e. pg_zk_proofs (ex_pg_store H) (pg_zkProofId H ''wallet'' (H ''n0'')) = Some e) \<and>
        pg_generate H (Some ''wallet'') ''n0'' 7 (ex_pg_store H) =
          (Inr (pg_zkProofId H ''wallet'' (H ''n0''), ''n0''), ex_pg_store H)"
    using collision_outcome [where H = H and w = "Some ''wallet2''" and partA = "''0a1b2c3d''"
        and partB = "''4e5f60''" and rnd = "''n1''" and now = 5000 and s = "ex_sq_fresh H"
        and e = "\<lparr>wallet_pubkey = ''wallet'', note_hash = H ''n0'', total = 0, spent = 0,
            created_at = 1000\<rparr>"]
      collision_outcome [where H = H and w = "Some ''wallet''" and rnd = "''n0''" and now = 7
        and db = "ex_pg_store H"
        and e' = "\<lparr>proof_wallet_pubkey = ''wallet'', proof_note_hash = H ''n0'',
             total_amount = 5, spent_amount = 3, proof_created_at = 1\<rparr>"]
    by (simp add: ex_pg_run_entry [unfolded ex_pg_id_def] fresh ex_sq_issue_id truthy_def)
qed

section \<open>The withdrawal state machine of the SQLite server\<close>

subsection \<open>Well-formed states\<close>

lemma fold_max_ge: "(a::nat) \<le> fold max xs a"
  by (induction xs arbitrary: a) (auto intro: order_trans [OF max.cobounded2])

lemma fold_max_mem: "(x::nat) \<in> set xs \<Longrightarrow> x \<le> fold max xs a"
proof (induction xs arbitrary: a)
  case Nil
  then show ?case by simp
next
  case (Cons y ys)
  show ?case
  proof (cases "x = y")
    case True
    have "y \<le> max y a" by simp
    also have "\<dots> \<le> fold max ys (max y a)" by (rule fold_max_ge)
    finally show ?thesis using True by simp
  next
    case False
    with Cons show ?thesis by simp
  qed
qed

lemma lastInsertRowid_fresh: "t \<in> set txs \<Longrightarrow> tx_id t < lastInsertRowid txs"
  unfolding lastInsertRowid_def using fold_max_mem [of "tx_id t" "map tx_id txs" 0]
  by (simp add: less_Suc_eq_le)

lemma lastInsertRowid_notin: "lastInsertRowid txs \<notin> tx_id ` set txs"
  using lastInsertRowid_fresh by fastforce

lemma sq_wf_empty: "sq_wf sq_empty"
  by (simp add: sq_wf_def sq_empty_def)

lemma sq_wf_generate: "sq_wf s \<Longrightarrow> sq_wf (snd (sq_generate H w a b rnd now s))"
  unfolding sq_wf_def sq_generate_def Let_def
  by (auto split: option.splits)

lemma sq_wf_deposits: "sq_wf s \<Longrightarrow> sq_wf (snd (sq_deposits body now s))"
  unfolding sq_wf_def sq_deposits_def Let_def
  by (auto simp: lastInsertRowid_notin truthy_iff split: option.splits if_splits)


lemma sq_wf_withdrawals: "sq_wf s \<Longrightarrow> sq_wf (snd (sq_withdrawals H pool body now s))"
proof -
  assume wf: "sq_wf s"
  have jobs_fresh: "lastInsertRowid (transactions s) \<notin> job_txId ` set (jobs s)"
  proof
    assume "lastInsertRowid (transactions s) \<in> job_txId ` set (jobs s)"
    then obtain j where "j \<in> set (jobs s)" "job_txId j = lastInsertRowid (transactions s)"
      by auto
    with wf obtain t where "t \<in> set (transactions s)" "tx_id t = lastInsertRowid (transactions s)"
      unfolding sq_wf_def by metis
    then show False using lastInsertRowid_fresh [of t "transactions s"] by simp
  qed
  show ?thesis
    using wf jobs_fresh unfolding sq_wf_def sq_withdrawals_def Let_def
    by (auto simp: lastInsertRowid_notin truthy_iff split: option.splits if_splits)
qed

lemma map_tx_id_update:
  "map tx_id (map (\<lambda>t. if tx_id t = x then f t else t) txs) = map tx_id txs"
  if "\<And>t. tx_id (f t) = tx_id t"
  using that by (induction txs) auto

lemma sq_wf_settle_step:
  assumes wf: "sq_wf s" and f: "find (\<lambda>j. job_txId j = txId) (jobs s) = Some job"
  shows "sq_wf (sq_settle job out (s\<lparr>jobs := filter (\<lambda>j. job_txId j \<noteq> txId) (jobs s)\<rparr>))"
proof -
  from f have jid: "job_txId job = txId" and jin: "job \<in> set (jobs s)"
    by (auto dest: find_Some_set)
  let ?g = "case out of Sent sig \<Rightarrow> (\<lambda>t. t\<lparr>status := CONFIRMED, tx_signature := Some sig\<rparr>)
              | SendFailed \<Rightarrow> (\<lambda>t. t\<lparr>status := FAILED\<rparr>)"
  let ?txs = "map (\<lambda>t. if tx_id t = txId then ?g t else t) (transactions s)"
  let ?s' = "sq_settle job out (s\<lparr>jobs := filter (\<lambda>j. job_txId j \<noteq> txId) (jobs s)\<rparr>)"
  have txs: "transactions ?s' = ?txs" and jobs: "jobs ?s' = filter (\<lambda>j. job_txId j \<noteq> txId) (jobs s)"
    using jid by (auto simp: sq_settle_def split: outcome.splits)
  have ids: "map tx_id ?txs = map tx_id (transactions s)"
    by (rule map_tx_id_update) (auto split: outcome.splits)
  have keep: "t \<in> set (transactions s) \<Longrightarrow> tx_id t \<noteq> txId \<Longrightarrow> t \<in> set ?txs" for t
    by (auto simp: image_iff intro!: bexI [of _ t])
  have from_old: "t' \<in> set ?txs \<Longrightarrow> \<exists>t \<in> set (transactions s).
      tx_zk_proof_id t' = tx_zk_proof_id t \<and> tx_wallet_pubkey t' = tx_wallet_pubkey t" for t'
    by (auto split: outcome.splits if_splits)
  have zk: "\<exists>q. zk_proofs ?s' z = Some q \<and> wallet_pubkey q = wallet_pubkey p"
    if "zk_proofs s z = Some p" for z p
    using that by (auto simp: sq_settle_def split: outcome.splits option.splits)
  show ?thesis
    unfolding sq_wf_def
  proof (intro conjI ballI)
    show "distinct (map tx_id (transactions ?s'))" unfolding txs ids using wf by (simp add: sq_wf_def)
    show "distinct (map job_txId (jobs ?s'))"
      using wf by (simp add: jobs sq_wf_def distinct_map_filter)
  next
    fix j assume "j \<in> set (jobs ?s')"
    then have j: "j \<in> set (jobs s)" "job_txId j \<noteq> txId" by (auto simp: jobs)
    with wf obtain t where t: "t \<in> set (transactions s)" "tx_id t = job_txId j"
      "status t = PENDING" "tx_type t = WITHDRAW" "tx_amount t = job_amt j"
      "tx_zk_proof_id t = job_zkProofId j"
      unfolding sq_wf_def by metis
    with j keep [of t] have "t \<in> set (transactions ?s')" by (simp add: txs)
    with t show "\<exists>t \<in> set (transactions ?s'). tx_id t = job_txId j \<and> status t = PENDING \<and>
        tx_type t = WITHDRAW \<and> tx_amount t = job_amt j \<and> tx_zk_proof_id t = job_zkProofId j"
      by blast
    from wf j obtain p where "zk_proofs s (job_zkProofId j) = Some p"
      unfolding sq_wf_def by blast
    with zk show "zk_proofs ?s' (job_zkProofId j) \<noteq> None" by fastforce
  next
    fix t' assume "t' \<in> set (transactions ?s')"
    with from_old obtain t where t: "t \<in> set (transactions s)"
      "tx_zk_proof_id t' = tx_zk_proof_id t" "tx_wallet_pubkey t' = tx_wallet_pubkey t"
      unfolding txs by blast
    with wf obtain p where "zk_proofs s (tx_zk_proof_id t) = Some p"
      "wallet_pubkey p = tx_wallet_pubkey t"
      unfolding sq_wf_def by blast
    with zk t show "\<exists>p. zk_proofs ?s' (tx_zk_proof_id t') = Some p \<and>
        wallet_pubkey p = tx_wallet_pubkey t'"
      by fastforce
  qed
qed

lemma sq_wf_step: "sq_wf s \<Longrightarrow> sq_wf (sq_step H pool s e)"
proof (cases e)
  case (SqSettle txId out)
  assume "sq_wf s"
  then show ?thesis using SqSettle
    by (cases "find (\<lambda>j. job_txId j = txId) (jobs s)") (simp_all add: sq_wf_settle_step)
qed (simp_all add: sq_wf_generate sq_wf_deposits sq_wf_withdrawals)

lemma sq_wf_run: "sq_wf s \<Longrightarrow> sq_wf (sq_run H pool evs s)"
  unfolding sq_run_def by (induction evs arbitrary: s) (simp_all add: sq_wf_step)

lemma update_unique:
  assumes d: "distinct (map tx_id txs)" and i: "i < length txs" and x: "tx_id (txs ! i) = x"
  shows "map (\<lambda>t. if tx_id t = x then f t else t) txs = txs[i := f (txs ! i)]"
proof (rule nth_equalityI)
  show "length (map (\<lambda>t. if tx_id t = x then f t else t) txs) = length (txs[i := f (txs ! i)])"
    by simp
next
  fix k assume "k < length (map (\<lambda>t. if tx_id t = x then f t else t) txs)"
  then have k: "k < length txs" by simp
  show "map (\<lambda>t. if tx_id t = x then f t else t) txs ! k = txs[i := f (txs ! i)] ! k"
  proof (cases "k = i")
    case True
    with i x show ?thesis by simp
  next
    case False
    have "map tx_id txs ! k \<noteq> map tx_id txs ! i"
      using nth_eq_iff_index_eq [OF d, of k i] k i False by simp
    then have "tx_id (txs ! k) \<noteq> x" using k i x by simp
    with k False show ?thesis by simp
  qed
qed

lemma job_row:
  assumes "sq_wf s" "j \<in> set (jobs s)"
  shows "\<exists>i < length (transactions s). tx_id (transactions s ! i) = job_txId j \<and>
           status (transactions s ! i) = PENDING \<and> tx_type (transactions s ! i) = WITHDRAW \<and>
           tx_amount (transactions s ! i) = job_amt j \<and>
           tx_zk_proof_id (transactions s ! i) = job_zkProofId j"
proof -
  from assms obtain t where t: "t \<in> set (transactions s)" "tx_id t = job_txId j"
      "status t = PENDING" "tx_type t = WITHDRAW" "tx_amount t = job_amt j"
      "tx_zk_proof_id t = job_zkProofId j"
    unfolding sq_wf_def by metis
  then obtain i where "i < length (transactions s)" "transactions s ! i = t"
    by (auto simp: in_set_conv_nth)
  with t show ?thesis by auto
qed

lemma find_job:
  assumes "sq_wf s" "j \<in> set (jobs s)"
  shows "find (\<lambda>j'. job_txId j' = job_txId j) (jobs s) = Some j"
proof -
  have d: "distinct (map job_txId (jobs s))" using assms(1) by (simp add: sq_wf_def)
  have "find (\<lambda>j'. job_txId j' = job_txId j) (jobs s) \<noteq> None"
    using assms(2) by (auto simp: find_None_iff)
  then obtain j' where f: "find (\<lambda>j'. job_txId j' = job_txId j) (jobs s) = Some j'" by auto
  then have "j' \<in> set (jobs s)" "job_txId j' = job_txId j" by (auto dest: find_Some_set)
  with d assms(2) have "j' = j" by (auto simp: distinct_map inj_on_def)
  with f show ?thesis by simp
qed

lemma filter_job:
  assumes "sq_wf s" "j \<in> set (jobs s)"
  shows "filter (\<lambda>j'. job_txId j' \<noteq> job_txId j) (jobs s) = removeAll j (jobs s)"
proof -
  have d: "distinct (map job_txId (jobs s))" using assms(1) by (simp add: sq_wf_def)
  have "\<And>j'. j' \<in> set (jobs s) \<Longrightarrow> (job_txId j' \<noteq> job_txId j) = (j' \<noteq> j)"
    using d assms(2) by (auto simp: distinct_map inj_on_def)
  then show ?thesis by (simp add: removeAll_filter_not_eq cong: filter_cong) metis
qed

lemma settle_job:
  assumes wf: "sq_wf s" and j: "j \<in> set (jobs s)"
  shows "\<exists>i < length (transactions s). \<exists>p.
           tx_id (transactions s ! i) = job_txId j \<and>
           status (transactions s ! i) = PENDING \<and> tx_type (transactions s ! i) = WITHDRAW \<and>
           tx_amount (transactions s ! i) = job_amt j \<and>
           tx_zk_proof_id (transactions s ! i) = job_zkProofId j \<and>
           zk_proofs s (job_zkProofId j) = Some p \<and>
           (\<forall>sig. sq_step H pool s (SqSettle (job_txId j) (Sent sig)) =
             s\<lparr>transactions := (transactions s)[i := (transactions s ! i)
                   \<lparr>status := CONFIRMED, tx_signature := Some sig\<rparr>],
               jobs := removeAll j (jobs s)\<rparr>) \<and>
           sq_step H pool s (SqSettle (job_txId j) SendFailed) =
             s\<lparr>transactions := (transactions s)[i := (transactions s ! i)\<lparr>status := FAILED\<rparr>],
               zk_proofs := (zk_proofs s)(job_zkProofId j \<mapsto>
                   p\<lparr>spent := spent p - job_amt j\<rparr>),
               jobs := removeAll j (jobs s)\<rparr>"
proof -
  from job_row [OF wf j] obtain i where i: "i < length (transactions s)"
    "tx_id (transactions s ! i) = job_txId j" "status (transactions s ! i) = PENDING"
    "tx_type (transactions s ! i) = WITHDRAW" "tx_amount (transactions s ! i) = job_amt j"
    "tx_zk_proof_id (transactions s ! i) = job_zkProofId j"
    by blast
  from wf j obtain p where p: "zk_proofs s (job_zkProofId j) = Some p"
    unfolding sq_wf_def by blast
  have d: "distinct (map tx_id (transactions s))" using wf by (simp add: sq_wf_def)
  note u = update_unique [OF d i(1) i(2)]
  have "\<forall>sig. sq_step H pool s (SqSettle (job_txId j) (Sent sig)) =
      s\<lparr>transactions := (transactions s)[i := (transactions s ! i)
            \<lparr>status := CONFIRMED, tx_signature := Some sig\<rparr>],
        jobs := removeAll j (jobs s)\<rparr>"
    by (simp add: find_job [OF wf j] filter_job [OF wf j] sq_settle_def u)
  moreover have "sq_step H pool s (SqSettle (job_txId j) SendFailed) =
      s\<lparr>transactions := (transactions s)[i := (transactions s ! i)\<lparr>status := FAILED\<rparr>],
        zk_proofs := (zk_proofs s)(job_zkProofId j \<mapsto> p\<lparr>spent := spent p - job_amt j\<rparr>),
        jobs := removeAll j (jobs s)\<rparr>"
    by (simp add: find_job [OF wf j] filter_job [OF wf j] sq_settle_def u p)
  ultimately show ?thesis using i p by blast
qed

subsection \<open>What one operation does to the transaction rows\<close>

lemma sq_step_cases:
  assumes wf: "sq_wf s"
  shows "transactions (sq_step H pool s e) = transactions s \<or>
    (\<exists>t. transactions (sq_step H pool s e) = transactions s @ [t] \<and>
         tx_id t \<notin> tx_id ` set (transactions s) \<and>
         (tx_type t = WITHDRAW \<longrightarrow> status t = PENDING \<and> tx_signature t = None)) \<or>
    (\<exists>i sig. i < length (transactions s) \<and> status (transactions s ! i) = PENDING \<and>
         tx_type (transactions s ! i) = WITHDRAW \<and>
         e = SqSettle (tx_id (transactions s ! i)) (Sent sig) \<and>
         transactions (sq_step H pool s e) =
           (transactions s)[i := (transactions s ! i)\<lparr>status := CONFIRMED, tx_signature := Some sig\<rparr>] \<and>
         zk_proofs (sq_step H pool s e) = zk_proofs s) \<or>
    (\<exists>i. i < length (transactions s) \<and> status (transactions s ! i) = PENDING \<and>
         tx_type (transactions s ! i) = WITHDRAW \<and>
         e = SqSettle (tx_id (transactions s ! i)) SendFailed \<and>
         transactions (sq_step H pool s e) =
           (transactions s)[i := (transactions s ! i)\<lparr>status := FAILED\<rparr>])"
proof (cases e)
  case (SqGenerate w a b rnd now)
  then have "transactions (sq_step H pool s e) = transactions s"
    by (auto simp: sq_generate_def Let_def split: option.splits)
  then show ?thesis by blast
next
  case (SqDeposit body now)
  then have "transactions (sq_step H pool s e) = transactions s \<or>
      (\<exists>t. transactions (sq_step H pool s e) = transactions s @ [t] \<and>
         tx_id t = lastInsertRowid (transactions s) \<and> tx_type t = DEPOSIT)"
    by (auto simp: sq_deposits_def Let_def split: option.splits)
  then show ?thesis using lastInsertRowid_notin [of "transactions s"] by auto
next
  case (SqWithdraw body now)
  then have "transactions (sq_step H pool s e) = transactions s \<or>
      (\<exists>t. transactions (sq_step H pool s e) = transactions s @ [t] \<and>
         tx_id t = lastInsertRowid (transactions s) \<and> status t = PENDING \<and> tx_signature t = None)"
    by (auto simp: sq_withdrawals_def Let_def split: option.splits)
  then show ?thesis using lastInsertRowid_notin [of "transactions s"] by auto
next
  case (SqSettle txId out)
  show ?thesis
  proof (cases "find (\<lambda>j. job_txId j = txId) (jobs s)")
    case None
    with SqSettle show ?thesis by simp
  next
    case (Some job)
    then have j: "job \<in> set (jobs s)" and jid: "job_txId job = txId"
      by (auto dest: find_Some_set)
    from settle_job [OF wf j, of H pool] obtain i where i: "i < length (transactions s)"
      "tx_id (transactions s ! i) = job_txId job" "status (transactions s ! i) = PENDING"
      "tx_type (transactions s ! i) = WITHDRAW"
      and ok: "\<And>sig. sq_step H pool s (SqSettle (job_txId job) (Sent sig)) =
             s\<lparr>transactions := (transactions s)[i := (transactions s ! i)
                   \<lparr>status := CONFIRMED, tx_signature := Some sig\<rparr>],
               jobs := removeAll job (jobs s)\<rparr>"
      and bad: "\<exists>p. sq_step H pool s (SqSettle (job_txId job) SendFailed) =
             s\<lparr>transactions := (transactions s)[i := (transactions s ! i)\<lparr>status := FAILED\<rparr>],
               zk_proofs := (zk_proofs s)(job_zkProofId job \<mapsto>
                   p\<lparr>spent := spent p - job_amt job\<rparr>),
               jobs := removeAll job (jobs s)\<rparr>"
      by blast
    show ?thesis
    proof (cases out)
      case (Sent sig)
      have "\<exists>i sig. i < length (transactions s) \<and> status (transactions s ! i) = PENDING \<and>
         tx_type (transactions s ! i) = WITHDRAW \<and>
         e = SqSettle (tx_id (transactions s ! i)) (Sent sig) \<and>
         transactions (sq_step H pool s e) =
           (transactions s)[i := (transactions s ! i)\<lparr>status := CONFIRMED, tx_signature := Some sig\<rparr>] \<and>
         zk_proofs (sq_step H pool s e) = zk_proofs s"
        using i ok [of sig] jid SqSettle Sent
        by (intro exI [of _ i] exI [of _ sig]) simp
      then show ?thesis by blast
    next
      case SendFailed
      have "\<exists>i. i < length (transactions s) \<and> status (transactions s ! i) = PENDING \<and>
         tx_type (transactions s ! i) = WITHDRAW \<and>
         e = SqSettle (tx_id (transactions s ! i)) SendFailed \<and>
         transactions (sq_step H pool s e) =
           (transactions s)[i := (transactions s ! i)\<lparr>status := FAILED\<rparr>]"
        using i bad jid SqSettle SendFailed
        by (intro exI [of _ i]) auto
      then show ?thesis by blast
    qed
  qed
qed

lemma terminal_step:
  assumes wf: "sq_wf s" and i: "i < length (transactions s)"
    and st: "status (transactions s ! i) \<noteq> PENDING"
  shows "i < length (transactions (sq_step H pool s e)) \<and>
         transactions (sq_step H pool s e) ! i = transactions s ! i"
  using sq_step_cases [OF wf, of H pool e] i st
  by (elim disjE exE conjE) (auto simp: nth_append nth_list_update)

lemma terminal_run:
  assumes "sq_wf s" "i < length (transactions s)" "status (transactions s ! i) \<noteq> PENDING"
  shows "i < length (transactions (sq_run H pool evs s)) \<and>
         transactions (sq_run H pool evs s) ! i = transactions s ! i"
  using assms
proof (induction evs arbitrary: s)
  case Nil
  then show ?case by (simp add: sq_run_def)
next
  case (Cons e evs)
  from terminal_step [OF Cons.prems, of H pool e]
  have 1: "i < length (transactions (sq_step H pool s e))"
    and 2: "transactions (sq_step H pool s e) ! i = transactions s ! i" by auto
  have 3: "sq_wf (sq_step H pool s e)" using Cons.prems(1) by (rule sq_wf_step)
  from Cons.IH [OF 3 1] 2 Cons.prems(3)
  show ?case by (simp add: sq_run_def)
qed


lemma jobs_fresh:
  assumes wf: "sq_wf s" and j: "j \<in> set (jobs s)"
  shows "job_txId j \<noteq> lastInsertRowid (transactions s)"
proof -
  from wf j obtain t where "t \<in> set (transactions s)" "tx_id t = job_txId j"
    unfolding sq_wf_def by metis
  then show ?thesis using lastInsertRowid_fresh [of t "transactions s"] by simp
qed


lemma withdraw_appends:
  assumes "sq_withdrawals H pool body now s = (Inr txId, s1)"
  shows "(\<exists>t. transactions s1 = transactions s @ [t] \<and> tx_id t = txId \<and>
             tx_type t = WITHDRAW \<and> status t = PENDING \<and> tx_signature t = None) \<and>
         (\<exists>j. jobs s1 = jobs s @ [j] \<and> job_txId j = txId)"
  using assms
  by (auto simp: sq_withdrawals_def Let_def split: if_splits option.splits)

subsection \<open>Compensation\<close>



subsection \<open>Status transitions\<close>

text \<open>
  C7. Let \<open>s\<close> be the state after any run and \<open>s'\<close> the state after one more operation
  \<open>e\<close>. Then
  \<^item> the transaction rows of \<open>s'\<close> are those of \<open>s\<close>, or those of \<open>s\<close> and one new row
    (which, if it is a withdrawal, is \<^verbatim>\<open>PENDING\<close> with no settlement reference), or those of
    \<open>s\<close> with one \<^verbatim>\<open>PENDING\<close> withdrawal row changed: to \<^verbatim>\<open>CONFIRMED\<close> with the returned
    signature, by the successful payout of that row, the entries left as they were; or
    to \<^verbatim>\<open>FAILED\<close>, by the failed payout of that row;
  \<^item> a row that is not \<^verbatim>\<open>PENDING\<close> stays the same row through every continuation of the
    run: \<^verbatim>\<open>CONFIRMED\<close> and \<^verbatim>\<open>FAILED\<close> are terminal, a row changes at most once, and never
    back to \<^verbatim>\<open>PENDING\<close>;
  \<^item> an accepted withdrawal appends a \<^verbatim>\<open>PENDING\<close> withdrawal row with no settlement
    reference and starts the job of that row;
  \<^item> the successful payout of a job in flight changes its row to \<^verbatim>\<open>CONFIRMED\<close> with the
    signature, removes the job and changes nothing else.
\<close>

theorem withdrawal_status_machine:
  assumes "s = sq_run H pool evs sq_empty" and "s' = sq_step H pool s e"
  shows
    "(transactions s' = transactions s \<or>
      (\<exists>t. transactions s' = transactions s @ [t] \<and>
           tx_id t \<notin> tx_id ` set (transactions s) \<and>
           (tx_type t = WITHDRAW \<longrightarrow> status t = PENDING \<and> tx_signature t = None)) \<or>
      (\<exists>i sig. i < length (transactions s) \<and> status (transactions s ! i) = PENDING \<and>
           tx_type (transactions s ! i) = WITHDRAW \<and>
           e = SqSettle (tx_id (transactions s ! i)) (Sent sig) \<and>
           transactions s' =
             (transactions s)[i := (transactions s ! i)
                \<lparr>status := CONFIRMED, tx_signature := Some sig\<rparr>] \<and>
           zk_proofs s' = zk_proofs s) \<or>
      (\<exists>i. i < length (transactions s) \<and> status (transactions s ! i) = PENDING \<and>
           tx_type (transactions s ! i) = WITHDRAW \<and>
           e = SqSettle (tx_id (transactions s ! i)) SendFailed \<and>
           transactions s' = (transactions s)[i := (transactions s ! i)\<lparr>status := FAILED\<rparr>])) \<and>
     (\<forall>i evs2. i < length (transactions s) \<and> status (transactions s ! i) \<noteq> PENDING \<longrightarrow>
        i < length (transactions (sq_run H pool evs2 s)) \<and>
        transactions (sq_run H pool evs2 s) ! i = transactions s ! i) \<and>
     (\<forall>body now txId s1. sq_withdrawals H pool body now s = (Inr txId, s1) \<longrightarrow>
        (\<exists>t. transactions s1 = transactions s @ [t] \<and> tx_id t = txId \<and>
             tx_type t = WITHDRAW \<and> status t = PENDING \<and> tx_signature t = None) \<and>
        (\<exists>j. jobs s1 = jobs s @ [j] \<and> job_txId j = txId)) \<and>
     (\<forall>j \<in> set (jobs s). \<exists>i < length (transactions s).
        tx_id (transactions s ! i) = job_txId j \<and> status (transactions s ! i) = PENDING \<and>
        (\<forall>sig. sq_step H pool s (SqSettle (job_txId j) (Sent sig)) =
           s\<lparr>transactions := (transactions s)[i := (transactions s ! i)
                 \<lparr>status := CONFIRMED, tx_signature := Some sig\<rparr>],
             jobs := removeAll j (jobs s)\<rparr>))"
proof -
  have wf: "sq_wf s" unfolding assms(1) by (rule sq_wf_run [OF sq_wf_empty])
  have 4: "\<exists>i < length (transactions s).
        tx_id (transactions s ! i) = job_txId j \<and> status (transactions s ! i) = PENDING \<and>
        (\<forall>sig. sq_step H pool s (SqSettle (job_txId j) (Sent sig)) =
           s\<lparr>transactions := (transactions s)[i := (transactions s ! i)
                 \<lparr>status := CONFIRMED, tx_signature := Some sig\<rparr>],
             jobs := removeAll j (jobs s)\<rparr>)"
    if "j \<in> set (jobs s)" for j
    using settle_job [OF wf that, of H pool] by blast
  show ?thesis
  proof (intro conjI allI impI ballI)
    show "transactions s' = transactions s \<or>
      (\<exists>t. transactions s' = transactions s @ [t] \<and>
           tx_id t \<notin> tx_id ` set (transactions s) \<and>
           (tx_type t = WITHDRAW \<longrightarrow> status t = PENDING \<and> tx_signature t = None)) \<or>
      (\<exists>i sig. i < length (transactions s) \<and> status (transactions s ! i) = PENDING \<and>
           tx_type (transactions s ! i) = WITHDRAW \<and>
           e = SqSettle (tx_id (transactions s ! i)) (Sent sig) \<and>
           transactions s' =
             (transactions s)[i := (transactions s ! i)
                \<lparr>status := CONFIRMED, tx_signature := Some sig\<rparr>] \<and>
           zk_proofs s' = zk_proofs s) \<or>
      (\<exists>i. i < length (transactions s) \<and> status (transactions s ! i) = PENDING \<and>
           tx_type (transactions s ! i) = WITHDRAW \<and>
           e = SqSettle (tx_id (transactions s ! i)) SendFailed \<and>
           transactions s' = (transactions s)[i := (transactions s ! i)\<lparr>status := FAILED\<rparr>])"
      unfolding assms(2) by (rule sq_step_cases [OF wf])
  next
    fix i evs2
    assume "i < length (transactions s) \<and> status (transactions s ! i) \<noteq> PENDING"
    then show "i < length (transactions (sq_run H pool evs2 s))"
      and "transactions (sq_run H pool evs2 s) ! i = transactions s ! i"
      using terminal_run [OF wf, of i H pool evs2] by auto
  next
    fix body now txId s1
    assume w: "sq_withdrawals H pool body now s = (Inr txId, s1)"
    from withdraw_appends [OF w]
    show "\<exists>t. transactions s1 = transactions s @ [t] \<and> tx_id t = txId \<and>
             tx_type t = WITHDRAW \<and> status t = PENDING \<and> tx_signature t = None"
      and "\<exists>j. jobs s1 = jobs s @ [j] \<and> job_txId j = txId"
      by auto
  next
    fix j assume "j \<in> set (jobs s)"
    then show "\<exists>i < length (transactions s).
        tx_id (transactions s ! i) = job_txId j \<and> status (transactions s ! i) = PENDING \<and>
        (\<forall>sig. sq_step H pool s (SqSettle (job_txId j) (Sent sig)) =
           s\<lparr>transactions := (transactions s)[i := (transactions s ! i)
                 \<lparr>status := CONFIRMED, tx_signature := Some sig\<rparr>],
             jobs := removeAll j (jobs s)\<rparr>)"
      by (rule 4)
  qed
qed

theorem withdrawal_status_machine_witness:
  "\<forall>H. map status (transactions (ex_sq_store H)) = [CONFIRMED, FAILED, PENDING] \<and>
        map status (transactions (sq_step H True (ex_sq_store H) (SqSettle 3 (Sent ''sig9'')))) =
          [CONFIRMED, FAILED, CONFIRMED] \<and>
        map tx_signature
          (transactions (sq_step H True (ex_sq_store H) (SqSettle 3 (Sent ''sig9'')))) =
          [Some ''sig'', None, Some ''sig9''] \<and>
        zk_proofs (sq_step H True (ex_sq_store H) (SqSettle 3 (Sent ''sig9''))) =
          zk_proofs (ex_sq_store H) \<and>
        1 < length (transactions (ex_sq_store H)) \<and>
        status (transactions (ex_sq_store H) ! 1) \<noteq> PENDING \<and>
        transactions (sq_run H True [SqSettle 2 (Sent ''late''), SqSettle 2 SendFailed]
                        (ex_sq_store H)) ! 1 = transactions (ex_sq_store H) ! 1"
proof
  fix H :: "string \<Rightarrow> string"
  have ev: "map status (transactions (ex_sq_store H)) = [CONFIRMED, FAILED, PENDING]"
    "map status (transactions (sq_step H True (ex_sq_store H) (SqSettle 3 (Sent ''sig9'')))) =
          [CONFIRMED, FAILED, CONFIRMED]"
    "map tx_signature
          (transactions (sq_step H True (ex_sq_store H) (SqSettle 3 (Sent ''sig9'')))) =
          [Some ''sig'', None, Some ''sig9'']"
    "zk_proofs (sq_step H True (ex_sq_store H) (SqSettle 3 (Sent ''sig9''))) =
          zk_proofs (ex_sq_store H)"
    by (simp_all add: ex_sq_store_eq sq_settle_def)
  have hyp: "1 < length (transactions (ex_sq_store H)) \<and>
      status (transactions (ex_sq_store H) ! 1) \<noteq> PENDING"
    by (simp add: ex_sq_store_eq)
  from withdrawal_status_machine [OF ex_sq_store_def refl, THEN conjunct2, THEN conjunct1,
      rule_format, OF hyp]
  have unchanged: "transactions (sq_run H True [SqSettle 2 (Sent ''late''), SqSettle 2 SendFailed]
                        (ex_sq_store H)) ! 1 = transactions (ex_sq_store H) ! 1"
    by blast
  show "map status (transactions (ex_sq_store H)) = [CONFIRMED, FAILED, PENDING] \<and>
        map status (transactions (sq_step H True (ex_sq_store H) (SqSettle 3 (Sent ''sig9'')))) =
          [CONFIRMED, FAILED, CONFIRMED] \<and>
        map tx_signature
          (transactions (sq_step H True (ex_sq_store H) (SqSettle 3 (Sent ''sig9'')))) =
          [Some ''sig'', None, Some ''sig9''] \<and>
        zk_proofs (sq_step H True (ex_sq_store H) (SqSettle 3 (Sent ''sig9''))) =
          zk_proofs (ex_sq_store H) \<and>
        1 < length (transactions (ex_sq_store H)) \<and>
        status (transactions (ex_sq_store H) ! 1) \<noteq> PENDING \<and>
        transactions (sq_run H True [SqSettle 2 (Sent ''late''), SqSettle 2 SendFailed]
                        (ex_sq_store H)) ! 1 = transactions (ex_sq_store H) ! 1"
    using ev hyp unchanged by blast
qed

section \<open>History\<close>

lemma pg_wf_empty: "pg_wf pg_empty"
  by (simp add: pg_wf_def pg_empty_def)

lemma pg_wf_generate: "pg_wf db \<Longrightarrow> pg_wf (snd (pg_generate H w rnd now db))"
  unfolding pg_wf_def pg_generate_def Let_def
  by (auto split: option.splits)

lemma pg_wf_deposits: "pg_wf db \<Longrightarrow> pg_wf (snd (pg_deposits body now db))"
  unfolding pg_wf_def pg_deposits_def Let_def
  by (auto simp: truthy_iff split: option.splits if_splits)

lemma pg_wf_withdrawals: "pg_wf db \<Longrightarrow> pg_wf (snd (pg_withdrawals H body now db))"
  unfolding pg_wf_def pg_withdrawals_def Let_def
  by (auto simp: truthy_iff split: option.splits if_splits)

lemma pg_wf_step: "pg_wf db \<Longrightarrow> pg_wf (pg_step H db e)"
  by (cases e) (simp_all add: pg_wf_generate pg_wf_deposits pg_wf_withdrawals)

lemma pg_wf_run: "pg_wf db \<Longrightarrow> pg_wf (pg_run H evs db)"
  unfolding pg_run_def by (induction evs arbitrary: db) (simp_all add: pg_wf_step)

lemma sorted_desc_sort_key:
  "sorted_wrt (\<lambda>a b. k b \<le> k a) (rev (sort_key k xs))"
proof -
  have "sorted (map k (sort_key k xs))" by (rule sorted_sort_key)
  then have "sorted_wrt (\<lambda>a b. k a \<le> k b) (sort_key k xs)"
    by (simp add: sorted_map)
  then show ?thesis by (simp add: sorted_wrt_rev)
qed

lemma deposits_n:
  assumes "zk_proofs s ex_sq_id = Some p" "wallet_pubkey p = ''wallet''"
  shows "length (filter (\<lambda>t. tx_wallet_pubkey t = ''wallet'')
           (transactions (sq_run H True
              (replicate n (SqDeposit (ex_sq_deposit ''wallet'' 1 (Some ''sig'')) 2000)) s))) =
         n + length (filter (\<lambda>t. tx_wallet_pubkey t = ''wallet'') (transactions s))"
  using assms
proof (induction n arbitrary: s p)
  case 0
  then show ?case by (simp add: sq_run_def)
next
  case (Suc n)
  let ?s1 = "snd (sq_deposits (ex_sq_deposit ''wallet'' 1 (Some ''sig'')) 2000 s)"
  have 1: "zk_proofs ?s1 ex_sq_id = Some (p\<lparr>total := total p + 1\<rparr>)"
    and 2: "transactions ?s1 = transactions s @
       [\<lparr>tx_id = lastInsertRowid (transactions s), tx_wallet_pubkey = ''wallet'',
         tx_zk_proof_id = ex_sq_id, tx_type = DEPOSIT, tx_amount = 1,
         tx_recipient = Some ''shielded_pool'', tx_signature = Some ''sig'',
         status = CONFIRMED, tx_created_at = 2000\<rparr>]"
    using Suc.prems
    by (simp_all add: sq_deposits_def ex_sq_deposit_def ex_sq_id_nonempty js_eval)
  from Suc.IH [OF 1] Suc.prems(2) 2 show ?case
    by (simp add: sq_run_def)
qed

text \<open>
  C8 (as amended). For a wallet \<open>w\<close> and the store after any run:
  \<^item> the PostgreSQL server answers with the first 200 rows of the wallet's transfer rows
    put newest first (so with at most 200 rows, the newest ones), and returns the store
    as it was;
  \<^item> the SQLite server answers with all of the wallet's transaction rows, newest first by
    \<^verbatim>\<open>created_at\<close> cut to the second and then by key, and returns the store as it was;
  \<^item> on both servers the wallet's rows are the rows of the entries that the wallet owns;
  \<^item> a request without wallet is answered with status 400 by both.
\<close>

theorem history_reader:
  assumes "db = pg_run H evs pg_empty" and "s = sq_run H' pool evs' sq_empty"
  shows
    "(w \<noteq> [] \<longrightarrow>
        (\<exists>full. pg_history (Some w) db = (Inr (take 200 full), db) \<and>
           mset full = mset (filter (\<lambda>r. tr_wallet_pubkey r = w) (zk_transfers db)) \<and>
           sorted_wrt (\<lambda>a b. tr_created_at b \<le> tr_created_at a) full \<and>
           length (take 200 full) \<le> 200) \<and>
        filter (\<lambda>r. tr_wallet_pubkey r = w) (zk_transfers db) =
          filter (\<lambda>r. map_option proof_wallet_pubkey (pg_zk_proofs db (tr_zk_proof_id r)) = Some w)
            (zk_transfers db)) \<and>
     (w \<noteq> [] \<longrightarrow>
        (\<exists>rows. sq_history (Some w) s = (Inr rows, s) \<and>
           mset rows = mset (filter (\<lambda>t. tx_wallet_pubkey t = w) (transactions s)) \<and>
           sorted_wrt (\<lambda>a b. (datetime (tx_created_at b), tx_id b)
                              \<le> (datetime (tx_created_at a), tx_id a)) rows) \<and>
        filter (\<lambda>t. tx_wallet_pubkey t = w) (transactions s) =
          filter (\<lambda>t. map_option wallet_pubkey (zk_proofs s (tx_zk_proof_id t)) = Some w)
            (transactions s)) \<and>
     (\<not> truthy v \<longrightarrow> pg_history v db = (Inl ValidationError, db) \<and>
                       sq_history v s = (Inl ValidationError, s))"
proof (intro conjI impI)
  assume w: "w \<noteq> []"
  let ?full = "rev (sort_key tr_created_at (filter (\<lambda>r. tr_wallet_pubkey r = w) (zk_transfers db)))"
  have "pg_history (Some w) db = (Inr (take 200 ?full), db)"
    using w by (simp add: pg_history_def truthy_def)
  moreover have "mset ?full = mset (filter (\<lambda>r. tr_wallet_pubkey r = w) (zk_transfers db))"
    by simp
  moreover have "sorted_wrt (\<lambda>a b. tr_created_at b \<le> tr_created_at a) ?full"
    by (rule sorted_desc_sort_key)
  ultimately show "\<exists>full. pg_history (Some w) db = (Inr (take 200 full), db) \<and>
           mset full = mset (filter (\<lambda>r. tr_wallet_pubkey r = w) (zk_transfers db)) \<and>
           sorted_wrt (\<lambda>a b. tr_created_at b \<le> tr_created_at a) full \<and>
           length (take 200 full) \<le> 200"
    by (intro exI [of _ ?full]) simp
  have "pg_wf db" unfolding assms(1) by (rule pg_wf_run [OF pg_wf_empty])
  then show "filter (\<lambda>r. tr_wallet_pubkey r = w) (zk_transfers db) =
          filter (\<lambda>r. map_option proof_wallet_pubkey (pg_zk_proofs db (tr_zk_proof_id r)) = Some w)
            (zk_transfers db)"
    by (intro filter_cong refl) (auto simp: pg_wf_def)
next
  assume w: "w \<noteq> []"
  let ?rows = "rev (sort_key (\<lambda>t. (datetime (tx_created_at t), tx_id t))
                 (filter (\<lambda>t. tx_wallet_pubkey t = w) (transactions s)))"
  have "sq_history (Some w) s = (Inr ?rows, s)"
    using w by (simp add: sq_history_def truthy_def)
  moreover have "mset ?rows = mset (filter (\<lambda>t. tx_wallet_pubkey t = w) (transactions s))"
    by simp
  moreover have "sorted_wrt (\<lambda>a b. (datetime (tx_created_at b), tx_id b)
                              \<le> (datetime (tx_created_at a), tx_id a)) ?rows"
    by (rule sorted_desc_sort_key)
  ultimately show "\<exists>rows. sq_history (Some w) s = (Inr rows, s) \<and>
           mset rows = mset (filter (\<lambda>t. tx_wallet_pubkey t = w) (transactions s)) \<and>
           sorted_wrt (\<lambda>a b. (datetime (tx_created_at b), tx_id b)
                              \<le> (datetime (tx_created_at a), tx_id a)) rows"
    by blast
  have "sq_wf s" unfolding assms(2) by (rule sq_wf_run [OF sq_wf_empty])
  then show "filter (\<lambda>t. tx_wallet_pubkey t = w) (transactions s) =
          filter (\<lambda>t. map_option wallet_pubkey (zk_proofs s (tx_zk_proof_id t)) = Some w)
            (transactions s)"
    by (intro filter_cong refl) (auto simp: sq_wf_def)
next
  assume "\<not> truthy v"
  then show "pg_history v db = (Inl ValidationError, db)"
    and "sq_history v s = (Inl ValidationError, s)"
    by (simp_all add: pg_history_def sq_history_def)
qed

theorem history_reader_witness:
  "\<forall>H. pg_history (Some ''wallet'') (ex_pg_store H) =
          (Inr [\<lparr>tr_zk_proof_id = ex_pg_id H, tr_wallet_pubkey = ''wallet'', tr_direction = WITHDRAW,
                  tr_amount = 3, tr_recipient = Some ''dest'', tr_tx_signature = None,
                  tr_created_at = 3\<rparr>,
                \<lparr>tr_zk_proof_id = ex_pg_id H, tr_wallet_pubkey = ''wallet'', tr_direction = DEPOSIT,
                  tr_amount = 5, tr_recipient = None, tr_tx_signature = None, tr_created_at = 2\<rparr>],
           ex_pg_store H) \<and>
        (\<exists>rows. sq_history (Some ''wallet'') (ex_sq_store H) = (Inr rows, ex_sq_store H) \<and>
           map tx_id rows = [3, 2, 1]) \<and>
        filter (\<lambda>t. tx_wallet_pubkey t = ''wallet'') (transactions (ex_sq_store H)) =
          filter (\<lambda>t. map_option wallet_pubkey (zk_proofs (ex_sq_store H) (tx_zk_proof_id t)) =
                       Some ''wallet'') (transactions (ex_sq_store H))"
proof
  fix H :: "string \<Rightarrow> string"
  have ne: "''wallet'' \<noteq> []" by simp
  from history_reader [OF ex_pg_store_def ex_sq_store_def, where w = "''wallet''",
      THEN conjunct2, THEN conjunct1, rule_format, OF ne]
  have own: "filter (\<lambda>t. tx_wallet_pubkey t = ''wallet'') (transactions (ex_sq_store H)) =
          filter (\<lambda>t. map_option wallet_pubkey (zk_proofs (ex_sq_store H) (tx_zk_proof_id t)) =
                       Some ''wallet'') (transactions (ex_sq_store H))"
    by blast
  have pg: "pg_history (Some ''wallet'') (ex_pg_store H) =
          (Inr [\<lparr>tr_zk_proof_id = ex_pg_id H, tr_wallet_pubkey = ''wallet'', tr_direction = WITHDRAW,
                  tr_amount = 3, tr_recipient = Some ''dest'', tr_tx_signature = None,
                  tr_created_at = 3\<rparr>,
                \<lparr>tr_zk_proof_id = ex_pg_id H, tr_wallet_pubkey = ''wallet'', tr_direction = DEPOSIT,
                  tr_amount = 5, tr_recipient = None, tr_tx_signature = None, tr_created_at = 2\<rparr>],
           ex_pg_store H)"
    by (simp add: pg_history_def truthy_def) (simp add: ex_pg_store_eq)
  have sq: "\<exists>rows. sq_history (Some ''wallet'') (ex_sq_store H) = (Inr rows, ex_sq_store H) \<and>
           map tx_id rows = [3, 2, 1]"
    by (simp add: sq_history_def truthy_def) (simp add: ex_sq_store_eq datetime_def)
  show "pg_history (Some ''wallet'') (ex_pg_store H) =
          (Inr [\<lparr>tr_zk_proof_id = ex_pg_id H, tr_wallet_pubkey = ''wallet'', tr_direction = WITHDRAW,
                  tr_amount = 3, tr_recipient = Some ''dest'', tr_tx_signature = None,
                  tr_created_at = 3\<rparr>,
                \<lparr>tr_zk_proof_id = ex_pg_id H, tr_wallet_pubkey = ''wallet'', tr_direction = DEPOSIT,
                  tr_amount = 5, tr_recipient = None, tr_tx_signature = None, tr_created_at = 2\<rparr>],
           ex_pg_store H) \<and>
        (\<exists>rows. sq_history (Some ''wallet'') (ex_sq_store H) = (Inr rows, ex_sq_store H) \<and>
           map tx_id rows = [3, 2, 1]) \<and>
        filter (\<lambda>t. tx_wallet_pubkey t = ''wallet'') (transactions (ex_sq_store H)) =
          filter (\<lambda>t. map_option wallet_pubkey (zk_proofs (ex_sq_store H) (tx_zk_proof_id t)) =
                       Some ''wallet'') (transactions (ex_sq_store H))"
    using pg sq own by blast
qed

text \<open>
  C8 as stated fails on the SQLite server, whose query has no \<^verbatim>\<open>LIMIT\<close>: after one
  issuance and 201 deposits the history of the wallet has 201 rows.
\<close>

theorem history_uncapped:
  "map_sum id length
     (fst (sq_history (Some ''wallet'')
        (sq_run ex_hash True
           (ex_sq_issue # replicate 201 (SqDeposit (ex_sq_deposit ''wallet'' 1 (Some ''sig'')) 2000))
           sq_empty))) = Inr 201"
proof -
  let ?d = "SqDeposit (ex_sq_deposit ''wallet'' 1 (Some ''sig'')) 2000"
  have run: "sq_run ex_hash True (ex_sq_issue # replicate 201 ?d) sq_empty =
      sq_run ex_hash True (replicate 201 ?d) (ex_sq_fresh ex_hash)"
    by (simp add: sq_run_def ex_sq_fresh_def)
  have "zk_proofs (ex_sq_fresh ex_hash) ex_sq_id =
      Some \<lparr>wallet_pubkey = ''wallet'', note_hash = ex_hash ''n0'',
            total = 0, spent = 0, created_at = 1000\<rparr>"
    by (simp add: ex_sq_fresh_eq)
  from deposits_n [OF this, of ex_hash 201]
  have "length (filter (\<lambda>t. tx_wallet_pubkey t = ''wallet'')
      (transactions (sq_run ex_hash True (replicate 201 ?d) (ex_sq_fresh ex_hash)))) = 201"
    by (simp add: ex_sq_fresh_eq)
  then show ?thesis
    unfolding run by (simp add: sq_history_def truthy_def)
qed

section \<open>The two servers against each other\<close>


























end
